theory Spec2Isabelle
  imports Complex_Main "HOL-Library.Sublist"
begin

section \<open>JavaScript strings and the string primitives the sources call\<close>

text \<open>
  A JavaScript string is a sequence of UTF-16 code units. The embedding uses
  \<^typ>\<open>string\<close> and reads a \<^typ>\<open>char\<close> as the code unit with the same number
  (0 to 255, the Latin-1 range), so \<open>length\<close> is the source's \<open>.length\<close> on such strings.
\<close>

definition code :: "char \<Rightarrow> nat" where
  "code c = of_char c"

text \<open>The regular-expression class \<open>\w\<close> (no \<open>u\<close> or \<open>i\<close> flag): \<open>[A-Za-z0-9_]\<close>.\<close>

definition isUpper :: "char \<Rightarrow> bool" where
  "isUpper c = (65 \<le> code c \<and> code c \<le> 90)"

definition isLower :: "char \<Rightarrow> bool" where
  "isLower c = (97 \<le> code c \<and> code c \<le> 122)"

definition isDigit :: "char \<Rightarrow> bool" where
  "isDigit c = (48 \<le> code c \<and> code c \<le> 57)"

definition isWord :: "char \<Rightarrow> bool" where
  "isWord c = (isUpper c \<or> isLower c \<or> isDigit c \<or> c = CHR ''_'')"

text \<open>
  The class \<open>\s\<close>, which is also what \<open>trim()\<close> strips: WhiteSpace and LineTerminator.
  Below 256 these are TAB, LF, VT, FF, CR, SPACE and NO-BREAK SPACE (160).
\<close>

definition isSpace :: "char \<Rightarrow> bool" where
  "isSpace c = ((9 \<le> code c \<and> code c \<le> 13) \<or> code c = 32 \<or> code c = 160)"

definition isHyphen :: "char \<Rightarrow> bool" where
  "isHyphen c = (c = CHR ''-'')"

text \<open>
  \<open>String.prototype.toLowerCase\<close>, code unit by code unit: \<open>A-Z\<close> and the Latin-1
  capitals 192 to 222 (without the multiplication sign 215) move up by 32; every other
  code unit below 256 is its own lower case.
\<close>

definition lowerChar :: "char \<Rightarrow> char" where
  "lowerChar c =
     (if isUpper c \<or> (192 \<le> code c \<and> code c \<le> 222 \<and> code c \<noteq> 215)
      then char_of (code c + 32) else c)"

definition toLowerCase :: "string \<Rightarrow> string" where
  "toLowerCase s = map lowerChar s"

definition trim :: "string \<Rightarrow> string" where
  "trim s = rev (dropWhile isSpace (rev (dropWhile isSpace s)))"

text \<open>
  \<open>s.replace(/[X]+/g, r)\<close> for a character class \<open>X\<close>: every maximal run of characters of
  the class is replaced by \<open>r\<close>.
\<close>

function replaceRuns :: "(char \<Rightarrow> bool) \<Rightarrow> string \<Rightarrow> string \<Rightarrow> string" where
  "replaceRuns X r [] = []"
| "replaceRuns X r (c # cs) =
     (if X c then r @ replaceRuns X r (dropWhile X cs) else c # replaceRuns X r cs)"
  by pat_completeness auto
termination
  by (relation "measure (\<lambda>(X, r, s). length s)")
     (auto simp: length_dropWhile_le less_Suc_eq_le)

text \<open>\<open>s.replace(/[^X]/g, '')\<close>: the characters outside the class are dropped.\<close>

definition removeOutside :: "(char \<Rightarrow> bool) \<Rightarrow> string \<Rightarrow> string" where
  "removeOutside X s = filter X s"

section \<open>Slug codec (utils/urlUtils, ProjectsApp.tsx)\<close>

definition slugKeep :: "char \<Rightarrow> bool" where
  "slugKeep c = (isWord c \<or> isSpace c \<or> isHyphen c)"

definition createSlug :: "string \<Rightarrow> string" where
  "createSlug name =
     replaceRuns isHyphen ''-''
       (replaceRuns isSpace ''-''
         (removeOutside slugKeep
           (trim (toLowerCase name))))"

definition isSlugChar :: "char \<Rightarrow> bool" where
  "isSlugChar c = (isLower c \<or> isDigit c \<or> c = CHR ''_'' \<or> c = CHR ''-'')"

text \<open>\<open>slug.replace(/-/g, ' ')\<close>: every hyphen becomes a space.\<close>

definition hyphensToSpaces :: "string \<Rightarrow> string" where
  "hyphensToSpaces s = map (\<lambda>c. if c = CHR ''-'' then CHR '' '' else c) s"

text \<open>
  \<open>s.split(sep)\<close> with a one-character separator: the pieces between the separators, empty
  pieces included; the empty string gives one empty piece.
\<close>

fun split :: "char \<Rightarrow> string \<Rightarrow> string list" where
  "split sep [] = [[]]"
| "split sep (c # cs) =
     (if c = sep then [] # split sep cs
      else (case split sep cs of
              [] \<Rightarrow> [[c]]
            | w # ws \<Rightarrow> (c # w) # ws))"

fun join :: "string \<Rightarrow> string list \<Rightarrow> string" where
  "join sep [] = []"
| "join sep [w] = w"
| "join sep (w # ws) = w @ sep @ join sep ws"

text \<open>
  \<open>toUpperCase\<close> on one code unit. \<open>decodeSlug\<close> is applied to segments of
  \<open>window.location.pathname\<close>, which the URL parser keeps in ASCII (everything else is
  percent-encoded), so the embedding covers ASCII: \<open>a-z\<close> move down by 32.
\<close>

definition upperChar :: "char \<Rightarrow> char" where
  "upperChar c = (if isLower c then char_of (code c - 32) else c)"

text \<open>\<open>word.charAt(0).toUpperCase() + word.slice(1)\<close>; \<open>charAt(0)\<close> of the empty word is empty.\<close>

definition capitalize :: "string \<Rightarrow> string" where
  "capitalize word = (case word of [] \<Rightarrow> [] | c # cs \<Rightarrow> upperChar c # cs)"

definition decodeSlug :: "string \<Rightarrow> string" where
  "decodeSlug slug = join '' '' (map capitalize (split CHR '' '' (hyphensToSpaces slug)))"

section \<open>View routing (ProjectsApp.tsx, component ProjectsApp)\<close>

datatype view = gallery_view | project_view

datatype screen = ProjectView string string | GalleryView

text \<open>\<open>path.split('/').filter(p => p)\<close>: the non-empty segments.\<close>

definition pathParts :: "string \<Rightarrow> string list" where
  "pathParts path = filter (\<lambda>p. p \<noteq> []) (split CHR ''/'' path)"

text \<open>
  The mount effect. The state starts as \<open>'gallery'\<close>; the effect sets \<open>'project'\<close> for a
  three-segment path whose first segment is \<open>projects\<close> and otherwise fetches the listing,
  leaving the view as it is. The second component tells whether \<open>fetchProjects\<close> ran.
\<close>

definition mountEffect :: "string \<Rightarrow> view \<times> bool" where
  "mountEffect path =
     (let parts = pathParts path in
      if length parts = 3 \<and> parts ! 0 = ''projects'' then (project_view, False)
      else (gallery_view, True))"

text \<open>
  The render of \<open>ProjectsApp\<close>: the decoded names are \<open>null\<close> unless the path has three
  segments, and the project view needs both of them truthy (non-empty).
\<close>

definition render :: "view \<Rightarrow> string \<Rightarrow> screen" where
  "render v path =
     (let parts = pathParts path;
          artistName = (if length parts = 3 then Some (decodeSlug (parts ! 1)) else None);
          projectName = (if length parts = 3 then Some (decodeSlug (parts ! 2)) else None)
      in case (artistName, projectName) of
           (Some a, Some p) \<Rightarrow>
             if v = project_view \<and> a \<noteq> [] \<and> p \<noteq> [] then ProjectView a p else GalleryView
         | _ \<Rightarrow> GalleryView)"

definition viewAtLoad :: "string \<Rightarrow> screen" where
  "viewAtLoad path = render (fst (mountEffect path)) path"

text \<open>
  The decoding as the specification words it: hyphens become spaces, then the first
  character of every space-separated word is put in upper case. \<open>start\<close> tells whether the
  next character begins a word.
\<close>

fun titleCase :: "bool \<Rightarrow> string \<Rightarrow> string" where
  "titleCase start [] = []"
| "titleCase start (c # cs) =
     (if c = CHR '' '' then c # titleCase True cs
      else (if start then upperChar c else c) # titleCase False cs)"

definition specDecode :: "string \<Rightarrow> string" where
  "specDecode slug = titleCase True (hyphensToSpaces slug)"

section \<open>Numbers, messages and truthiness\<close>

text \<open>
  A JavaScript number: a double is a rational, an infinity or NaN. Comparisons with NaN
  are false.
\<close>

datatype number = NaN | PosInfinity | NegInfinity | Num rat

definition numLess :: "number \<Rightarrow> rat \<Rightarrow> bool" where
  "numLess x k = (case x of NaN \<Rightarrow> False | PosInfinity \<Rightarrow> False
                  | NegInfinity \<Rightarrow> True | Num r \<Rightarrow> r < k)"

definition numGreater :: "number \<Rightarrow> rat \<Rightarrow> bool" where
  "numGreater x k = (case x of NaN \<Rightarrow> False | PosInfinity \<Rightarrow> True
                     | NegInfinity \<Rightarrow> False | Num r \<Rightarrow> k < r)"

datatype jsError = RangeError string

text \<open>
  \<open>BigInt(x)\<close> is the integer \<open>x\<close> when the number is an integer and throws a RangeError
  otherwise; the text of the error is the engine's and is passed in.
\<close>

definition BigInt :: "string \<Rightarrow> number \<Rightarrow> jsError + int" where
  "BigInt errorText x =
     (case x of
        Num r \<Rightarrow> if r = of_int \<lfloor>r\<rfloor> then Inr \<lfloor>r\<rfloor> else Inl (RangeError errorText)
      | _ \<Rightarrow> Inl (RangeError errorText))"

datatype messageType = success | error | info

record Message =
  "text" :: string
  type :: messageType

record Notice =
  message :: "Message option"

text \<open>An optional string is truthy when it is there and not empty.\<close>

definition present :: "string option \<Rightarrow> bool" where
  "present v = (case v of None \<Rightarrow> False | Some s \<Rightarrow> s \<noteq> [])"

section \<open>Mint flow (ProjectsApp.tsx, component ProjectView)\<close>

datatype status = pending | approved | rejected

record Project =
  status :: status
  contractAddress :: "string option"
  mintingEnabled :: bool
  mintPrice :: number

text \<open>
  What one render of \<open>ProjectView\<close> holds: its state and the values of the wallet hooks.
  \<open>basePrice\<close> is the data of the \<open>publicSaleCost\<close> read, absent while the read has produced
  nothing; \<open>isConfirming\<close> is the loading flag of the wait for the receipt.
\<close>

record ProjectViewState = Notice +
  project :: "Project option"
  loading :: bool
  minting :: bool
  isConfirming :: bool
  mintAmount :: number
  txHash :: "string option"
  isConnected :: bool
  walletAddress :: "string option"
  chainId :: nat
  basePrice :: "int option"

text \<open>The chain id of \<open>polygon\<close> in \<open>wagmi/chains\<close>.\<close>

definition polygon_id :: nat where
  "polygon_id = 137"

text \<open>
  The calls made to the wallet: \<open>switchChain({chainId})\<close> and
  \<open>writeContract({address, functionName, args, value})\<close> with the arguments of \<open>mint\<close>.
\<close>

datatype walletCall =
    SwitchChain nat
  | WriteContract string string "int \<times> string \<times> string" int

text \<open>
  The surroundings of one run of \<open>handleMint\<close>: \<open>switchChain\<close> is absent when the hook
  gives no function (the call is \<open>switchChain?.(...)\<close>), and otherwise tells whether the
  awaited call returns (\<open>True\<close>) or throws.
\<close>

record Wallet =
  switchChain :: "bool option"
  bigIntErrorText :: string

definition handleMint :: "Wallet \<Rightarrow> ProjectViewState \<Rightarrow> ProjectViewState \<times> walletCall list" where
  "handleMint w st =
     (if \<not> isConnected st \<or> \<not> present (walletAddress st) then
        (st\<lparr>message := Some \<lparr>text = ''Please connect your wallet first'', type = error\<rparr>\<rparr>, [])
      else if \<not> present (case project st of None \<Rightarrow> None | Some p \<Rightarrow> contractAddress p) then
        (st\<lparr>message := Some \<lparr>text = ''Project contract address not found'', type = error\<rparr>\<rparr>, [])
      else
        let (switched, calls) =
              (if chainId st \<noteq> polygon_id then
                 (case switchChain w of
                    None \<Rightarrow> (True, [])
                  | Some ok \<Rightarrow> (ok, [SwitchChain polygon_id]))
               else (True, []))
        in
        if \<not> switched then
          (st\<lparr>message := Some \<lparr>text = ''Please switch to Polygon network to mint'', type = error\<rparr>\<rparr>,
           calls)
        else
          let st1 = st\<lparr>minting := True,
                       message := Some \<lparr>text = ''Initiating mint transaction...'', type = info\<rparr>\<rparr>;
              pricePerNFT = (case basePrice st of
                               None \<Rightarrow> 0
                             | Some p \<Rightarrow> if p = 0 then 0 else p)
          in
          (case BigInt (bigIntErrorText w) (mintAmount st) of
             Inl (RangeError m) \<Rightarrow>
               (st1\<lparr>minting := False,
                    message := Some \<lparr>text = (if m = [] then ''Minting failed. Please try again.'' else m),
                                     type = error\<rparr>\<rparr>,
                calls)
           | Inr amount \<Rightarrow>
               let totalPrice = pricePerNFT * amount in
               (st1,
                calls @ [WriteContract
                           (case project st of
                              None \<Rightarrow> []
                            | Some p \<Rightarrow> (case contractAddress p of None \<Rightarrow> [] | Some a \<Rightarrow> a))
                           ''mint''
                           (amount, ''Collector'', (case walletAddress st of None \<Rightarrow> [] | Some a \<Rightarrow> a))
                           totalPrice])))"

text \<open>The \<open>value\<close> fields of the contract writes among the wallet calls.\<close>

fun submittedValues :: "walletCall list \<Rightarrow> int list" where
  "submittedValues [] = []"
| "submittedValues (SwitchChain c # cs) = submittedValues cs"
| "submittedValues (WriteContract a f args v # cs) = v # submittedValues cs"

definition canMint :: "Project \<Rightarrow> bool" where
  "canMint p = (status p = approved \<and> present (contractAddress p) \<and> mintingEnabled p)"

text \<open>
  The unit price shown on the page: \<open>basePrice ? Number(formatEther(basePrice)) :
  project.mintPrice\<close>. The conversion of the on-chain price to a number is passed in.
\<close>

definition displayPricePerNFT :: "(int \<Rightarrow> number) \<Rightarrow> ProjectViewState \<Rightarrow> Project \<Rightarrow> number" where
  "displayPricePerNFT etherNumber st p =
     (case basePrice st of
        None \<Rightarrow> Project.mintPrice p
      | Some b \<Rightarrow> if b = 0 then Project.mintPrice p else etherNumber b)"

definition isMintDisabled :: "ProjectViewState \<Rightarrow> Project \<Rightarrow> bool" where
  "isMintDisabled st p = (minting st \<or> isConfirming st \<or> \<not> isConnected st \<or> \<not> canMint p)"

text \<open>
  The parts of the project page that depend on the project's state: the minting section,
  which holds the button to connect a wallet or else the mint controls (the amount
  selector and the mint button, with its \<open>disabled\<close> flag), and the three status boxes.
\<close>

datatype mintingContent = ConnectWalletButton | MintControls bool

datatype pageSection = MintingSection mintingContent | PendingBox | RejectedBox | NotLiveBox

datatype page = LoadingPage | NotFoundPage | ProjectPage "pageSection list"

definition renderProjectView :: "ProjectViewState \<Rightarrow> page" where
  "renderProjectView st =
     (if loading st then LoadingPage
      else case project st of
        None \<Rightarrow> NotFoundPage
      | Some p \<Rightarrow>
          ProjectPage
            ((if canMint p then
                [MintingSection (if \<not> isConnected st then ConnectWalletButton
                                 else MintControls (isMintDisabled st p))]
              else []) @
             (if status p = pending then [PendingBox] else []) @
             (if status p = rejected then [RejectedBox] else []) @
             (if status p = approved \<and> present (contractAddress p) \<and> \<not> mintingEnabled p
              then [NotLiveBox] else [])))"

text \<open>The minting sections among the sections of a page, by their content.\<close>

fun mintingSections :: "pageSection list \<Rightarrow> mintingContent list" where
  "mintingSections [] = []"
| "mintingSections (MintingSection c # ss) = c # mintingSections ss"
| "mintingSections (s # ss) = mintingSections ss"

text \<open>The status badges on a project's card in the gallery (\<open>GalleryView\<close>).\<close>

datatype badge = MintingLive | ComingSoon

definition cardBadges :: "Project \<Rightarrow> badge list" where
  "cardBadges p =
     (if mintingEnabled p then [MintingLive] else []) @
     (if \<not> mintingEnabled p \<and> present (contractAddress p) then [ComingSoon] else [])"

section \<open>Field validators (pages/Home)\<close>

definition validateMobile :: "string \<Rightarrow> string" where
  "validateMobile mobile =
     (if mobile = [] then ''Mobile number is required''
      else
        let digitsOnly = removeOutside isDigit mobile in
        if length digitsOnly < 10 then ''Please enter a valid mobile number''
        else if length digitsOnly > 15 then ''Phone number cannot exceed 15 digits''
        else [])"

text \<open>The test of \<open>/^0x[a-fA-F0-9]{40}$/\<close>.\<close>

definition isHex :: "char \<Rightarrow> bool" where
  "isHex c = (isDigit c \<or> (97 \<le> code c \<and> code c \<le> 102) \<or> (65 \<le> code c \<and> code c \<le> 70))"

definition ethAddressRegex :: "string \<Rightarrow> bool" where
  "ethAddressRegex s = (length s = 42 \<and> take 2 s = ''0x'' \<and> list_all isHex (drop 2 s))"

section \<open>Dashboard state, availability checks and the project form (pages/Home)\<close>

text \<open>The fields \<open>id\<close> and \<open>name\<close> of an artist carry a prefix here.\<close>

record Artist =
  artist_id :: string
  artist_name :: string

record File =
  fileSize :: nat
  fileType :: string

record FormData =
  projectName :: string
  projectSymbol :: string
  image :: "File option"
  totalSupply :: string
  mintPrice :: string
  contractOwner :: string
  royalties :: string

record Home = Notice +
  artistData :: "Artist option"
  formData :: FormData
  projectNameAvailable :: "bool option"
  projectSymbolAvailable :: "bool option"
  checkingProjectName :: bool
  checkingProjectSymbol :: bool
  submitting :: bool

text \<open>
  The requests sent to the backend, with the parts of their bodies that are modelled:
  the trimmed candidate and the artist id of the two checks, the artist id and the trimmed
  name of \<open>create-project\<close>, the artist id of the project listing.
\<close>

datatype request =
    CheckProjectName string string
  | CheckProjectSymbol string string
  | CreateProject string string
  | GetProjects string

text \<open>
  What an awaited \<open>fetch\<close> followed by \<open>response.json()\<close> gives: the fetch rejects, the
  parsing rejects, or there is a body.
\<close>

datatype 'a reply = FetchFails | JsonFails | Json 'a

text \<open>
  The surroundings of the dashboard: the replies of the backend (for a check, the
  \<open>available\<close> field of the body, absent when the body has none; for \<open>create-project\<close>,
  \<open>response.ok\<close> and the \<open>error\<close> field), whether the image file can be read, and the
  built-ins \<open>parseInt\<close> and \<open>parseFloat\<close>.
\<close>

record Env =
  nameReply :: "bool option reply"
  symbolReply :: "bool option reply"
  createReply :: "(bool \<times> string option) reply"
  imageReads :: bool
  parseInt :: "string \<Rightarrow> number"
  parseFloat :: "string \<Rightarrow> number"

text \<open>
  The two availability checks; their parameter (\<open>projectSymbol\<close>, \<open>projectName\<close> in the
  source) is the text to check.
\<close>

definition checkProjectSymbolAvailability ::
    "bool option reply \<Rightarrow> Home \<Rightarrow> string \<Rightarrow> Home \<times> request list" where
  "checkProjectSymbolAvailability r st symbolText =
     (if trim symbolText = [] \<or> length (trim symbolText) < 1 then
        (st\<lparr>projectSymbolAvailable := None\<rparr>, [])
      else if \<not> present (map_option artist_id (artistData st)) then (st, [])
      else
        let st1 = st\<lparr>checkingProjectSymbol := True\<rparr>;
            sent = [CheckProjectSymbol (trim symbolText) (artist_id (the (artistData st)))];
            st2 = (case r of
                     Json available \<Rightarrow> st1\<lparr>projectSymbolAvailable := available\<rparr>
                   | _ \<Rightarrow> st1\<lparr>projectSymbolAvailable := None\<rparr>)
        in (st2\<lparr>checkingProjectSymbol := False\<rparr>, sent))"

definition checkProjectNameAvailability ::
    "bool option reply \<Rightarrow> Home \<Rightarrow> string \<Rightarrow> Home \<times> request list" where
  "checkProjectNameAvailability r st nameText =
     (if trim nameText = [] \<or> length (trim nameText) < 2 then
        (st\<lparr>projectNameAvailable := None\<rparr>, [])
      else if \<not> present (map_option artist_id (artistData st)) then (st, [])
      else
        let st1 = st\<lparr>checkingProjectName := True\<rparr>;
            sent = [CheckProjectName (trim nameText) (artist_id (the (artistData st)))];
            st2 = (case r of
                     Json available \<Rightarrow> st1\<lparr>projectNameAvailable := available\<rparr>
                   | _ \<Rightarrow> st1\<lparr>projectNameAvailable := None\<rparr>)
        in (st2\<lparr>checkingProjectName := False\<rparr>, sent))"

definition failed :: "string \<Rightarrow> Message option" where
  "failed t = Some \<lparr>text = t, type = error\<rparr>"

definition notice :: "string \<Rightarrow> Message option" where
  "notice t = Some \<lparr>text = t, type = info\<rparr>"

text \<open>
  \<open>validateForm\<close>, run on the render \<open>st\<close>. The setters act on the state that is returned;
  the reads of \<open>formData\<close>, \<open>projectNameAvailable\<close> and \<open>projectSymbolAvailable\<close> are reads of
  the constants of that render, so they see \<open>st\<close>. The result is the returned boolean, the
  state and the requests sent.
\<close>

definition validateForm :: "Env \<Rightarrow> Home \<Rightarrow> bool \<times> Home \<times> request list" where
  "validateForm env st =
     (let fd = formData st in
      if trim (projectName fd) = [] then
        (False, st\<lparr>message := failed ''Project name is required''\<rparr>, [])
      else if trim (projectSymbol fd) = [] then
        (False, st\<lparr>message := failed ''Project symbol is required''\<rparr>, [])
      else if length (projectSymbol fd) > 10 then
        (False, st\<lparr>message := failed ''Project symbol must be 10 characters or less''\<rparr>, [])
      else
        let (st1, sent1) =
              checkProjectNameAvailability (nameReply env)
                (st\<lparr>message := notice ''Checking project name availability...''\<rparr>) (projectName fd)
        in
        if projectNameAvailable st = Some False then
          (False,
           st1\<lparr>message := failed ''Project name is already taken. Please choose a different name.''\<rparr>,
           sent1)
        else
          let (st2, sent2) =
                checkProjectSymbolAvailability (symbolReply env)
                  (st1\<lparr>message := notice ''Checking project symbol availability...''\<rparr>)
                  (projectSymbol fd);
              sent = sent1 @ sent2
          in
          if projectSymbolAvailable st = Some False then
            (False,
             st2\<lparr>message :=
                   failed ''Project symbol is already taken. Please choose a different symbol.''\<rparr>,
             sent)
          else if totalSupply fd = [] \<or> numLess (parseInt env (totalSupply fd)) 1 then
            (False, st2\<lparr>message := failed ''Total supply must be at least 1''\<rparr>, sent)
          else if mintPrice fd = [] \<or> numLess (parseFloat env (mintPrice fd)) 0 then
            (False, st2\<lparr>message := failed ''Mint price cannot be negative''\<rparr>, sent)
          else if royalties fd = [] \<or> numLess (parseFloat env (royalties fd)) 0 then
            (False, st2\<lparr>message := failed ''Royalties cannot be negative''\<rparr>, sent)
          else if numGreater (parseFloat env (royalties fd)) 100 then
            (False, st2\<lparr>message := failed ''Royalties cannot exceed 100%''\<rparr>, sent)
          else if trim (contractOwner fd) = [] then
            (False, st2\<lparr>message := failed ''Contract owner wallet address is required''\<rparr>, sent)
          else if \<not> ethAddressRegex (trim (contractOwner fd)) then
            (False,
             st2\<lparr>message := failed ''Please enter a valid Ethereum wallet address (0x...)''\<rparr>,
             sent)
          else if image fd = None then
            (False, st2\<lparr>message := failed ''Project image is required''\<rparr>, sent)
          else (True, st2, sent))"

text \<open>\<open>s.includes(t)\<close>: \<open>t\<close> occurs in \<open>s\<close> as a contiguous piece.\<close>

fun includes_str :: "string \<Rightarrow> string \<Rightarrow> bool" where
  "includes_str [] t = (t = [])"
| "includes_str (c # cs) t = (prefix t (c # cs) \<or> includes_str cs t)"

definition emptyForm :: FormData where
  "emptyForm = \<lparr>projectName = [], projectSymbol = [], image = None, totalSupply = [],
                 mintPrice = [], contractOwner = [], royalties = []\<rparr>"

text \<open>
  \<open>handleSubmit\<close>: nothing is sent to \<open>create-project\<close> unless \<open>validateForm\<close> returned true
  and an artist with an id is logged in.
\<close>

definition handleSubmit :: "Env \<Rightarrow> Home \<Rightarrow> Home \<times> request list" where
  "handleSubmit env st =
     (let (isValid, st1, sent) = validateForm env st in
      if \<not> isValid then (st1, sent)
      else if \<not> present (map_option artist_id (artistData st)) then
        (st1\<lparr>message := failed ''Authentication error. Please log in again.''\<rparr>, sent)
      else
        let aid = artist_id (the (artistData st));
            st2 = st1\<lparr>submitting := True, message := notice ''Creating project...''\<rparr>;
            networkError =
              st2\<lparr>message := failed ''Network error. Please check your connection and try again.'',
                   submitting := False\<rparr>
        in
        if image (formData st) = None \<or> \<not> imageReads env then (networkError, sent)
        else
          let create = CreateProject aid (trim (projectName (formData st))) in
          (case createReply env of
             Json (ok, err) \<Rightarrow>
               if ok then
                 (st2\<lparr>message := Some \<lparr>text = ''Project created successfully! It's now pending approval.'',
                                        type = success\<rparr>,
                      formData := emptyForm,
                      projectNameAvailable := None,
                      projectSymbolAvailable := None,
                      submitting := False\<rparr>,
                  sent @ [create, GetProjects aid])
               else
                 let st3 = st2\<lparr>message := failed (if present err then the err
                                                   else ''Error creating project'')\<rparr>;
                     st4 = (if present err \<and> includes_str (the err) ''already exists'' then
                              (if includes_str (the err) ''project name''
                               then st3\<lparr>projectNameAvailable := Some False\<rparr>
                               else if includes_str (the err) ''project symbol''
                               then st3\<lparr>projectSymbolAvailable := Some False\<rparr>
                               else st3)
                            else st3)
                 in (st4\<lparr>submitting := False\<rparr>, sent @ [create])
           | _ \<Rightarrow> (networkError, sent @ [create])))"

subsection \<open>The validation as the specification words it\<close>

text \<open>
  The rules in their priority order, each with the condition under which it fails and its
  message; the first failing rule decides. The conditions are the specification's: the
  required fields are there, the symbol has at most 10 characters, the availability check
  made for this submission does not find the name or the symbol taken, \<open>totalSupply\<close> is
  at least 1, \<open>mintPrice\<close> is at least 0, \<open>royalties\<close> lies in [0, 100], the contract owner
  is \<open>0x\<close> and 40 hexadecimal digits, and an image is chosen. A value that is not a number
  is not at least or at most anything.
\<close>

definition numAtLeast :: "number \<Rightarrow> rat \<Rightarrow> bool" where
  "numAtLeast x k = (case x of NaN \<Rightarrow> False | PosInfinity \<Rightarrow> True
                     | NegInfinity \<Rightarrow> False | Num r \<Rightarrow> k \<le> r)"

definition numAtMost :: "number \<Rightarrow> rat \<Rightarrow> bool" where
  "numAtMost x k = (case x of NaN \<Rightarrow> False | PosInfinity \<Rightarrow> False
                    | NegInfinity \<Rightarrow> True | Num r \<Rightarrow> r \<le> k)"

text \<open>The verdicts of the two availability checks when made on the form of \<open>st\<close>.\<close>

definition nameVerdict :: "Env \<Rightarrow> Home \<Rightarrow> bool option" where
  "nameVerdict env st =
     projectNameAvailable
       (fst (checkProjectNameAvailability (nameReply env) st (projectName (formData st))))"

definition symbolVerdict :: "Env \<Rightarrow> Home \<Rightarrow> bool option" where
  "symbolVerdict env st =
     projectSymbolAvailable
       (fst (checkProjectSymbolAvailability (symbolReply env) st (projectSymbol (formData st))))"

datatype rule =
    NameRule | SymbolRule | SymbolLengthRule | NameAvailabilityRule | SymbolAvailabilityRule
  | TotalSupplyRule | MintPriceRule | RoyaltiesRule | RoyaltiesRangeRule
  | ContractOwnerPresenceRule | ContractOwnerFormatRule | ImagePresenceRule

definition priorityOrder :: "rule list" where
  "priorityOrder =
     [NameRule, SymbolRule, SymbolLengthRule, NameAvailabilityRule, SymbolAvailabilityRule,
      TotalSupplyRule, MintPriceRule, RoyaltiesRule, RoyaltiesRangeRule,
      ContractOwnerPresenceRule, ContractOwnerFormatRule, ImagePresenceRule]"

fun fails :: "Env \<Rightarrow> Home \<Rightarrow> rule \<Rightarrow> bool" where
  "fails env st NameRule = (trim (projectName (formData st)) = [])"
| "fails env st SymbolRule = (trim (projectSymbol (formData st)) = [])"
| "fails env st SymbolLengthRule = (length (projectSymbol (formData st)) > 10)"
| "fails env st NameAvailabilityRule = (nameVerdict env st = Some False)"
| "fails env st SymbolAvailabilityRule = (symbolVerdict env st = Some False)"
| "fails env st TotalSupplyRule =
     (totalSupply (formData st) = [] \<or>
      \<not> numAtLeast (parseInt env (totalSupply (formData st))) 1)"
| "fails env st MintPriceRule =
     (mintPrice (formData st) = [] \<or>
      \<not> numAtLeast (parseFloat env (mintPrice (formData st))) 0)"
| "fails env st RoyaltiesRule =
     (royalties (formData st) = [] \<or>
      \<not> numAtLeast (parseFloat env (royalties (formData st))) 0)"
| "fails env st RoyaltiesRangeRule =
     (\<not> numAtMost (parseFloat env (royalties (formData st))) 100)"
| "fails env st ContractOwnerPresenceRule = (trim (contractOwner (formData st)) = [])"
| "fails env st ContractOwnerFormatRule = (\<not> ethAddressRegex (trim (contractOwner (formData st))))"
| "fails env st ImagePresenceRule = (image (formData st) = None)"

fun ruleMessage :: "rule \<Rightarrow> string" where
  "ruleMessage NameRule = ''Project name is required''"
| "ruleMessage SymbolRule = ''Project symbol is required''"
| "ruleMessage SymbolLengthRule = ''Project symbol must be 10 characters or less''"
| "ruleMessage NameAvailabilityRule =
     ''Project name is already taken. Please choose a different name.''"
| "ruleMessage SymbolAvailabilityRule =
     ''Project symbol is already taken. Please choose a different symbol.''"
| "ruleMessage TotalSupplyRule = ''Total supply must be at least 1''"
| "ruleMessage MintPriceRule = ''Mint price cannot be negative''"
| "ruleMessage RoyaltiesRule = ''Royalties cannot be negative''"
| "ruleMessage RoyaltiesRangeRule = ''Royalties cannot exceed 100%''"
| "ruleMessage ContractOwnerPresenceRule = ''Contract owner wallet address is required''"
| "ruleMessage ContractOwnerFormatRule = ''Please enter a valid Ethereum wallet address (0x...)''"
| "ruleMessage ImagePresenceRule = ''Project image is required''"

definition firstFailing :: "Env \<Rightarrow> Home \<Rightarrow> rule option" where
  "firstFailing env st = find (fails env st) priorityOrder"

text \<open>The requests among \<open>sent\<close> that submit a project.\<close>

fun submissions :: "request list \<Rightarrow> request list" where
  "submissions [] = []"
| "submissions (CreateProject a n # rs) = CreateProject a n # submissions rs"
| "submissions (r # rs) = submissions rs"

section \<open>Properties of the string primitives\<close>

lemma code_char_of: "code (char_of (n::nat)) = n mod 256"
  by (simp add: code_def)

lemma lowerChar_not_upper: "\<not> isUpper (lowerChar c)"
  by (auto simp: lowerChar_def isUpper_def code_char_of)

lemma set_trim: "set (trim s) \<subseteq> set s"
proof -
  have "set (trim s) \<subseteq> set (dropWhile isSpace s)"
    unfolding trim_def using set_dropWhileD[of _ isSpace "rev (dropWhile isSpace s)"] by auto
  also have "\<dots> \<subseteq> set s" using set_dropWhileD[of _ isSpace s] by auto
  finally show ?thesis .
qed

lemma dropWhile_none: "\<forall>c \<in> set s. \<not> P c \<Longrightarrow> dropWhile P s = s"
  by (cases s) auto

lemma trim_none: "\<forall>c \<in> set s. \<not> isSpace c \<Longrightarrow> trim s = s"
  by (simp add: trim_def dropWhile_none)

text \<open>A replaced string consists of characters of the replacement and kept characters.\<close>

lemma set_replaceRuns: "set (replaceRuns X r s) \<subseteq> set r \<union> {c \<in> set s. \<not> X c}"
proof (induction X r s rule: replaceRuns.induct)
  case (1 X r)
  show ?case by simp
next
  case (2 X r c cs)
  show ?case
  proof (cases "X c")
    case True
    have "set (dropWhile X cs) \<subseteq> set cs" using set_dropWhileD by fastforce
    with 2(1)[OF True] True show ?thesis by auto
  next
    case False
    with 2(2)[OF False] show ?thesis by auto
  qed
qed

lemma replaceRuns_none: "\<forall>c \<in> set s. \<not> X c \<Longrightarrow> replaceRuns X r s = s"
  by (induction s) auto

lemma dropWhile_replaceRuns:
  "s = [] \<or> \<not> X (hd s) \<Longrightarrow> dropWhile X (replaceRuns X r s) = replaceRuns X r s"
  by (cases s) auto

text \<open>
  Replacing runs of a class by a non-empty string of that class leaves no two runs to
  merge: doing it twice is doing it once.
\<close>

lemma replaceRuns_idem:
  "r \<noteq> [] \<Longrightarrow> \<forall>c \<in> set r. X c \<Longrightarrow>
   replaceRuns X r (replaceRuns X r s) = replaceRuns X r s"
proof (induction X r s rule: replaceRuns.induct)
  case (1 X r)
  show ?case by simp
next
  case (2 X r c cs)
  show ?case
  proof (cases "X c")
    case True
    let ?t = "replaceRuns X r (dropWhile X cs)"
    have hd: "dropWhile X cs = [] \<or> \<not> X (hd (dropWhile X cs))"
      using hd_dropWhile[of X cs] by blast
    have dw: "dropWhile X ?t = ?t"
      using hd dropWhile_replaceRuns[of "dropWhile X cs" X r] by blast
    obtain r0 rs where r: "r = r0 # rs" using 2(3) by (cases r) auto
    have allr: "dropWhile X (rs @ ?t) = ?t"
      using 2(4) r dw by (simp add: dropWhile_append)
    have "replaceRuns X r (r @ ?t) = r @ replaceRuns X r ?t"
      using 2(4) r allr by simp
    also have "\<dots> = r @ ?t" using 2(1)[OF True 2(3) 2(4)] by simp
    finally show ?thesis using True by simp
  next
    case False
    with 2(2)[OF False 2(3) 2(4)] show ?thesis by simp
  qed
qed

section \<open>Slug codec\<close>

lemma lowerChar_fixed: "isSlugChar c \<Longrightarrow> lowerChar c = c"
  by (auto simp: lowerChar_def isSlugChar_def isUpper_def isLower_def isDigit_def code_def)

lemma slug_not_space: "isSlugChar c \<Longrightarrow> \<not> isSpace c"
  by (auto simp: isSlugChar_def isSpace_def isLower_def isDigit_def code_def)

lemma slug_not_upper: "isSlugChar c \<Longrightarrow> \<not> isUpper c"
  by (auto simp: isSlugChar_def isUpper_def isLower_def isDigit_def code_def)

lemma slug_keep: "isSlugChar c \<Longrightarrow> slugKeep c"
  by (auto simp: isSlugChar_def slugKeep_def isWord_def isHyphen_def)

lemma keep_to_slug: "slugKeep c \<Longrightarrow> \<not> isUpper c \<Longrightarrow> \<not> isSpace c \<Longrightarrow> isSlugChar c"
  by (auto simp: isSlugChar_def slugKeep_def isWord_def isHyphen_def)

lemma createSlug_chars: "\<forall>c \<in> set (createSlug x). isSlugChar c"
proof
  fix c assume c: "c \<in> set (createSlug x)"
  let ?l = "toLowerCase x"
  let ?f = "removeOutside slugKeep (trim ?l)"
  let ?w = "replaceRuns isSpace ''-'' ?f"
  have lower: "\<forall>d \<in> set ?l. \<not> isUpper d"
    by (simp add: toLowerCase_def lowerChar_not_upper)
  have f: "\<forall>d \<in> set ?f. slugKeep d \<and> \<not> isUpper d"
    using lower set_trim[of ?l] by (auto simp: removeOutside_def)
  have w: "\<forall>d \<in> set ?w. isSlugChar d"
  proof
    fix d assume "d \<in> set ?w"
    then have "d = CHR ''-'' \<or> (d \<in> set ?f \<and> \<not> isSpace d)"
      using set_replaceRuns[of isSpace "''-''" ?f] by auto
    then show "isSlugChar d"
      using f keep_to_slug by (auto simp: isSlugChar_def)
  qed
  from c have "c = CHR ''-'' \<or> c \<in> set ?w"
    using set_replaceRuns[of isHyphen "''-''" ?w] by (auto simp: createSlug_def)
  then show "isSlugChar c" using w by (auto simp: isSlugChar_def)
qed

text \<open>A string of slug characters without a run of hyphens to collapse is its own slug.\<close>

lemma createSlug_fixed:
  assumes chars: "\<forall>c \<in> set y. isSlugChar c"
    and runs: "replaceRuns isHyphen ''-'' y = y"
  shows "createSlug y = y"
proof -
  have l: "toLowerCase y = y"
    using chars by (simp add: toLowerCase_def lowerChar_fixed map_idI)
  have t: "trim y = y" using chars slug_not_space by (simp add: trim_none)
  have f: "removeOutside slugKeep y = y"
    using chars slug_keep by (simp add: removeOutside_def)
  have w: "replaceRuns isSpace ''-'' y = y"
    using chars slug_not_space by (simp add: replaceRuns_none)
  show ?thesis by (simp add: createSlug_def l t f w runs)
qed

text \<open>
  Claim C4. The slug encoder is idempotent: encoding a slug again gives the same slug,
  \<open>createSlug (createSlug x) = createSlug x\<close> for every string \<open>x\<close>.
\<close>

theorem createSlug_idempotent: "createSlug (createSlug x) = createSlug x"
proof (rule createSlug_fixed)
  show "\<forall>c \<in> set (createSlug x). isSlugChar c" by (rule createSlug_chars)
  show "replaceRuns isHyphen ''-'' (createSlug x) = createSlug x"
    unfolding createSlug_def by (rule replaceRuns_idem) (simp_all add: isHyphen_def)
qed

theorem createSlug_idempotent_witness:
  "createSlug ''jane-doe-xy_9'' = ''jane-doe-xy_9'' \<and>
   createSlug ''  Jane   Doe --  x!Y_9 '' = ''jane-doe-xy_9''"
proof -
  have e: "createSlug ''  Jane   Doe --  x!Y_9 '' = ''jane-doe-xy_9''" by code_simp
  show ?thesis using createSlug_idempotent[of "''  Jane   Doe --  x!Y_9 ''"] e by simp
qed

text \<open>
  Claim C10. Every character of a slug is a lowercase letter, a digit, an underscore or a
  hyphen; in particular a slug holds no whitespace and no uppercase letter.
\<close>

theorem createSlug_alphabet:
  "list_all isSlugChar (createSlug x) \<and>
   list_all (\<lambda>c. \<not> isSpace c \<and> \<not> isUpper c) (createSlug x)"
  using createSlug_chars[of x] slug_not_space slug_not_upper
  by (simp add: list_all_iff)

theorem createSlug_alphabet_witness:
  "createSlug '' A  b--C! '' = ''a-b-c'' \<and> list_all isSlugChar ''a-b-c'' \<and>
   list_all (\<lambda>c. \<not> isSpace c \<and> \<not> isUpper c) ''a-b-c''"
proof -
  have e: "createSlug '' A  b--C! '' = ''a-b-c''" by code_simp
  show ?thesis using createSlug_alphabet[of "'' A  b--C! ''"] e by simp
qed

section \<open>View routing\<close>

lemma split_nonempty: "split sep s \<noteq> []"
  by (induction s) (auto split: list.splits)

text \<open>
  The source's split, capitalise and join is the word-by-word title-casing of the
  specification.
\<close>

lemma titleCase_split:
  "titleCase b s =
     join '' '' (case split CHR '' '' s of
                   [] \<Rightarrow> []
                 | w # ws \<Rightarrow> (if b then capitalize w else w) # map capitalize ws)"
proof (induction s arbitrary: b)
  case Nil
  then show ?case by (simp add: capitalize_def)
next
  case (Cons c cs)
  obtain w ws where sp: "split CHR '' '' cs = w # ws"
    using split_nonempty[of "CHR '' ''" cs] by (cases "split CHR '' '' cs") auto
  show ?case
  proof (cases "c = CHR '' ''")
    case True
    then show ?thesis using Cons[of True] sp by (simp add: capitalize_def)
  next
    case False
    then show ?thesis using Cons[of False] sp
      by (cases ws) (simp_all add: capitalize_def)
  qed
qed

lemma decodeSlug_spec: "decodeSlug slug = specDecode slug"
  using split_nonempty[of "CHR '' ''" "hyphensToSpaces slug"]
  by (simp add: decodeSlug_def specDecode_def titleCase_split split: list.splits)

lemma decodeSlug_nonempty: "s \<noteq> [] \<Longrightarrow> decodeSlug s \<noteq> []"
  by (cases s) (auto simp: decodeSlug_spec specDecode_def hyphensToSpaces_def)

text \<open>
  Claim C8. At load, a path whose non-empty segments are exactly \<open>projects\<close>, an artist
  slug and a project slug selects the project view, with the names decoded from the two
  slugs by replacing hyphens with spaces and putting the first letter of every word in
  upper case; the path \<open>/projects\<close> selects the gallery.
\<close>

theorem initial_view_from_path:
  "(pathParts path = [''projects'', a, b] \<longrightarrow>
      viewAtLoad path = ProjectView (decodeSlug a) (decodeSlug b) \<and>
      decodeSlug a = specDecode a \<and> decodeSlug b = specDecode b) \<and>
   viewAtLoad ''/projects'' = GalleryView"
proof (intro conjI impI)
  assume pp: "pathParts path = [''projects'', a, b]"
  have "a \<in> set (pathParts path)" "b \<in> set (pathParts path)" using pp by auto
  then have "a \<noteq> []" "b \<noteq> []" by (auto simp: pathParts_def)
  then have "decodeSlug a \<noteq> []" "decodeSlug b \<noteq> []" by (auto simp: decodeSlug_nonempty)
  then show "viewAtLoad path = ProjectView (decodeSlug a) (decodeSlug b)"
    using pp by (simp add: viewAtLoad_def render_def mountEffect_def)
next
  show "decodeSlug a = specDecode a" by (rule decodeSlug_spec)
next
  show "decodeSlug b = specDecode b" by (rule decodeSlug_spec)
next
  show "viewAtLoad ''/projects'' = GalleryView" by code_simp
qed

theorem initial_view_from_path_witness:
  "pathParts ''/projects/jane-doe/my-art'' = [''projects'', ''jane-doe'', ''my-art''] \<and>
   viewAtLoad ''/projects/jane-doe/my-art'' = ProjectView ''Jane Doe'' ''My Art'' \<and>
   specDecode ''jane-doe'' = ''Jane Doe'' \<and> specDecode ''my-art'' = ''My Art''"
proof -
  have p: "pathParts ''/projects/jane-doe/my-art'' = [''projects'', ''jane-doe'', ''my-art'']"
    by code_simp
  have a: "decodeSlug ''jane-doe'' = ''Jane Doe''" by code_simp
  have b: "decodeSlug ''my-art'' = ''My Art''" by code_simp
  show ?thesis
    using initial_view_from_path[of "''/projects/jane-doe/my-art''" "''jane-doe''" "''my-art''"]
      p a b
    by simp
qed

section \<open>Mint flow\<close>

lemma BigInt_of_int [simp]: "BigInt e (Num (of_int n)) = Inr n"
  by (simp add: BigInt_def)

text \<open>
  On the right chain, or when the switch does not throw, the chain step lets the request
  through and has made no contract write.
\<close>

lemma switch_passes:
  assumes "chainId st = polygon_id \<or> switchChain w \<noteq> Some False"
  shows "\<exists>calls. (if chainId st \<noteq> polygon_id then
                 (case switchChain w of
                    None \<Rightarrow> (True, [])
                  | Some ok \<Rightarrow> (ok, [SwitchChain polygon_id]))
               else (True, [])) = (True, calls) \<and> submittedValues calls = []"
  using assms by (cases "switchChain w"; cases "chainId st = polygon_id"; simp)

text \<open>
  A request that passes the checks and whose amount converts to a BigInt writes to the
  contract once, with the unit price taken from the on-chain read, or 0 without one.
\<close>

lemma handleMint_submits:
  assumes "isConnected st" "present (walletAddress st)"
    and "present (case project st of None \<Rightarrow> None | Some p \<Rightarrow> contractAddress p)"
    and "chainId st = polygon_id \<or> switchChain w \<noteq> Some False"
    and "BigInt (bigIntErrorText w) (mintAmount st) = Inr n"
  shows "submittedValues (snd (handleMint w st)) =
           [(case basePrice st of None \<Rightarrow> 0 | Some P \<Rightarrow> P) * n]"
    and "message (fst (handleMint w st)) =
           Some \<lparr>text = ''Initiating mint transaction...'', type = info\<rparr>"
proof -
  obtain calls where c: "(if chainId st \<noteq> polygon_id then
                 (case switchChain w of
                    None \<Rightarrow> (True, [])
                  | Some ok \<Rightarrow> (ok, [SwitchChain polygon_id]))
               else (True, [])) = (True, calls)" and s: "submittedValues calls = []"
    using switch_passes[OF assms(4)] by blast
  have p: "(case basePrice st of None \<Rightarrow> 0 | Some p \<Rightarrow> if p = 0 then 0 else p)
           = (case basePrice st of None \<Rightarrow> 0 | Some P \<Rightarrow> P)"
    by (simp split: option.splits)
  have sv: "submittedValues (xs @ [WriteContract a f args v]) = submittedValues xs @ [v]"
    for xs a f args v
    by (induction xs rule: submittedValues.induct) simp_all
  show "submittedValues (snd (handleMint w st)) =
           [(case basePrice st of None \<Rightarrow> 0 | Some P \<Rightarrow> P) * n]"
    using assms(1-3,5) s by (simp add: handleMint_def c p sv Let_def)
  show "message (fst (handleMint w st)) =
           Some \<lparr>text = ''Initiating mint transaction...'', type = info\<rparr>"
    using assms(1-3,5) by (simp add: handleMint_def c Let_def)
qed

text \<open>Every run of \<open>handleMint\<close> writes to the contract at most once, with that value.\<close>

lemma handleMint_values:
  "submittedValues (snd (handleMint w st)) = [] \<or>
   (\<exists>n. BigInt (bigIntErrorText w) (mintAmount st) = Inr n \<and>
        submittedValues (snd (handleMint w st)) =
          [(case basePrice st of None \<Rightarrow> 0 | Some P \<Rightarrow> P) * n])"
proof -
  let ?addr = "case project st of None \<Rightarrow> None | Some p \<Rightarrow> contractAddress p"
  consider (wallet) "\<not> isConnected st \<or> \<not> present (walletAddress st)"
    | (contract) "isConnected st" "present (walletAddress st)" "\<not> present ?addr"
    | (chain) "isConnected st" "present (walletAddress st)" "present ?addr"
        "chainId st \<noteq> polygon_id" "switchChain w = Some False"
    | (amount) m where "isConnected st" "present (walletAddress st)" "present ?addr"
        "chainId st = polygon_id \<or> switchChain w \<noteq> Some False"
        "BigInt (bigIntErrorText w) (mintAmount st) = Inl (RangeError m)"
    | (submit) n where "isConnected st" "present (walletAddress st)" "present ?addr"
        "chainId st = polygon_id \<or> switchChain w \<noteq> Some False"
        "BigInt (bigIntErrorText w) (mintAmount st) = Inr n"
  proof (cases "BigInt (bigIntErrorText w) (mintAmount st)")
    case (Inl e)
    then obtain m where "BigInt (bigIntErrorText w) (mintAmount st) = Inl (RangeError m)"
      by (cases e) simp
    then show ?thesis using wallet contract chain amount by blast
  next
    case (Inr n)
    then show ?thesis using wallet contract chain submit by blast
  qed
  then show ?thesis
  proof cases
    case wallet
    then show ?thesis by (simp add: handleMint_def)
  next
    case contract
    then show ?thesis by (simp add: handleMint_def)
  next
    case chain
    then show ?thesis by (simp add: handleMint_def)
  next
    case amount
    obtain calls where c: "(if chainId st \<noteq> polygon_id then
                 (case switchChain w of
                    None \<Rightarrow> (True, [])
                  | Some ok \<Rightarrow> (ok, [SwitchChain polygon_id]))
               else (True, [])) = (True, calls)" and s: "submittedValues calls = []"
      using switch_passes[OF amount(4)] by blast
    show ?thesis using amount(1-3,5) s by (simp add: handleMint_def c Let_def)
  next
    case submit
    from handleMint_submits(1)[OF submit] submit(5) show ?thesis by blast
  qed
qed

text \<open>The advertised price of the project has no part in what \<open>handleMint\<close> does.\<close>

lemma handleMint_mintPrice:
  "snd (handleMint w (st\<lparr>project := Some (p\<lparr>Project.mintPrice := q\<rparr>)\<rparr>)) =
     snd (handleMint w (st\<lparr>project := Some p\<rparr>)) \<and>
   message (fst (handleMint w (st\<lparr>project := Some (p\<lparr>Project.mintPrice := q\<rparr>)\<rparr>))) =
     message (fst (handleMint w (st\<lparr>project := Some p\<rparr>)))"
  by (simp add: handleMint_def Let_def split_beta split: sum.splits jsError.splits)

text \<open>
  Claim C1. The claim asks that a mint request be blocked, with an explicit error, when the
  on-chain read of the unit price has produced no value. The code does not do that: the
  unit price is \<open>basePrice || BigInt(0)\<close>, so such a request is sent to the contract with
  value 0, under the message announcing the transaction, while the page shows the
  advertised price of the project as the unit price.
\<close>

theorem mint_unread_price_sends_zero:
  "handleMint \<lparr>switchChain = Some True, bigIntErrorText = ''not an integer''\<rparr>
     \<lparr>message = None,
      project = Some \<lparr>status = approved, contractAddress = Some ''0xabc'',
                      mintingEnabled = True, mintPrice = Num 5\<rparr>,
      loading = False, minting = False, isConfirming = False,
      mintAmount = Num 1, txHash = None,
      isConnected = True, walletAddress = Some ''0xme'', chainId = 137, basePrice = None\<rparr>
   = (\<lparr>message = Some \<lparr>text = ''Initiating mint transaction...'', type = info\<rparr>,
       project = Some \<lparr>status = approved, contractAddress = Some ''0xabc'',
                       mintingEnabled = True, mintPrice = Num 5\<rparr>,
       loading = False, minting = True, isConfirming = False,
       mintAmount = Num 1, txHash = None,
       isConnected = True, walletAddress = Some ''0xme'', chainId = 137, basePrice = None\<rparr>,
      [WriteContract ''0xabc'' ''mint'' (1, ''Collector'', ''0xme'') 0]) \<and>
   displayPricePerNFT etherNumber
     \<lparr>message = None,
      project = Some \<lparr>status = approved, contractAddress = Some ''0xabc'',
                      mintingEnabled = True, mintPrice = Num 5\<rparr>,
      loading = False, minting = False, isConfirming = False,
      mintAmount = Num 1, txHash = None,
      isConnected = True, walletAddress = Some ''0xme'', chainId = 137, basePrice = None\<rparr>
     \<lparr>status = approved, contractAddress = Some ''0xabc'',
      mintingEnabled = True, mintPrice = Num 5\<rparr>
   = Num 5"
proof -
  have b: "BigInt ''not an integer'' (Num 1) = Inr 1"
    using BigInt_of_int[of "''not an integer''" 1] by simp
  show ?thesis
    by (simp add: handleMint_def present_def polygon_id_def b displayPricePerNFT_def)
qed

theorem mint_unread_price_sends_zero_witness:
  "submittedValues
     (snd (handleMint \<lparr>switchChain = Some True, bigIntErrorText = ''not an integer''\<rparr>
       \<lparr>message = None,
        project = Some \<lparr>status = approved, contractAddress = Some ''0xabc'',
                        mintingEnabled = True, mintPrice = Num 5\<rparr>,
        loading = False, minting = False, isConfirming = False,
        mintAmount = Num 1, txHash = None,
        isConnected = True, walletAddress = Some ''0xme'', chainId = 137, basePrice = None\<rparr>))
   = [0] \<and>
   displayPricePerNFT (\<lambda>b. Num (of_int b / 10 ^ 18))
     \<lparr>message = None,
      project = Some \<lparr>status = approved, contractAddress = Some ''0xabc'',
                      mintingEnabled = True, mintPrice = Num 5\<rparr>,
      loading = False, minting = False, isConfirming = False,
      mintAmount = Num 1, txHash = None,
      isConnected = True, walletAddress = Some ''0xme'', chainId = 137, basePrice = None\<rparr>
     \<lparr>status = approved, contractAddress = Some ''0xabc'',
      mintingEnabled = True, mintPrice = Num 5\<rparr>
   = Num 5"
  using mint_unread_price_sends_zero[of "\<lambda>b. Num (of_int b / 10 ^ 18)"]
  by simp

text \<open>
  Claim C2. The preconditions of a mint request are checked in order, the wallet first.
  A request made while the wallet is not connected, or has no address, changes nothing but
  the message, which asks to connect the wallet, and calls no wallet function: the flow
  stays idle. A request on a project without a contract address calls no wallet function
  and leaves the flow idle; once past the wallet check it raises the message that the
  contract address was not found.
\<close>

theorem mint_preconditions:
  "(\<not> isConnected st \<longrightarrow>
      handleMint w st =
        (st\<lparr>message := Some \<lparr>text = ''Please connect your wallet first'', type = error\<rparr>\<rparr>, [])) \<and>
   (\<not> present (walletAddress st) \<longrightarrow>
      handleMint w st =
        (st\<lparr>message := Some \<lparr>text = ''Please connect your wallet first'', type = error\<rparr>\<rparr>, [])) \<and>
   (\<not> present (case project st of None \<Rightarrow> None | Some p \<Rightarrow> contractAddress p) \<longrightarrow>
      snd (handleMint w st) = [] \<and> minting (fst (handleMint w st)) = minting st \<and>
      txHash (fst (handleMint w st)) = txHash st) \<and>
   (isConnected st \<and> present (walletAddress st) \<and>
    \<not> present (case project st of None \<Rightarrow> None | Some p \<Rightarrow> contractAddress p) \<longrightarrow>
      handleMint w st =
        (st\<lparr>message := Some \<lparr>text = ''Project contract address not found'', type = error\<rparr>\<rparr>, []))"
  by (simp add: handleMint_def)

theorem mint_preconditions_witness:
  "handleMint \<lparr>switchChain = Some True, bigIntErrorText = ''not an integer''\<rparr>
     \<lparr>message = None,
      project = Some \<lparr>status = approved, contractAddress = Some ''0xabc'',
                      mintingEnabled = True, mintPrice = Num 5\<rparr>,
      loading = False, minting = False, isConfirming = False,
      mintAmount = Num 1, txHash = None,
      isConnected = False, walletAddress = None, chainId = 137, basePrice = None\<rparr>
   = (\<lparr>message = Some \<lparr>text = ''Please connect your wallet first'', type = error\<rparr>,
       project = Some \<lparr>status = approved, contractAddress = Some ''0xabc'',
                       mintingEnabled = True, mintPrice = Num 5\<rparr>,
       loading = False, minting = False, isConfirming = False,
      mintAmount = Num 1, txHash = None,
       isConnected = False, walletAddress = None, chainId = 137, basePrice = None\<rparr>, []) \<and>
   handleMint \<lparr>switchChain = Some True, bigIntErrorText = ''not an integer''\<rparr>
     \<lparr>message = None,
      project = Some \<lparr>status = approved, contractAddress = None,
                      mintingEnabled = True, mintPrice = Num 5\<rparr>,
      loading = False, minting = False, isConfirming = False,
      mintAmount = Num 1, txHash = None,
      isConnected = True, walletAddress = Some ''0xme'', chainId = 1, basePrice = None\<rparr>
   = (\<lparr>message = Some \<lparr>text = ''Project contract address not found'', type = error\<rparr>,
       project = Some \<lparr>status = approved, contractAddress = None,
                       mintingEnabled = True, mintPrice = Num 5\<rparr>,
       loading = False, minting = False, isConfirming = False,
      mintAmount = Num 1, txHash = None,
       isConnected = True, walletAddress = Some ''0xme'', chainId = 1, basePrice = None\<rparr>, [])"
  using
    mint_preconditions[of
      "\<lparr>message = None,
        project = Some \<lparr>status = approved, contractAddress = Some ''0xabc'',
                        mintingEnabled = True, mintPrice = Num 5\<rparr>,
        loading = False, minting = False, isConfirming = False,
      mintAmount = Num 1, txHash = None,
        isConnected = False, walletAddress = None, chainId = 137, basePrice = None\<rparr>"
      "\<lparr>switchChain = Some True, bigIntErrorText = ''not an integer''\<rparr>"]
    mint_preconditions[of
      "\<lparr>message = None,
        project = Some \<lparr>status = approved, contractAddress = None,
                        mintingEnabled = True, mintPrice = Num 5\<rparr>,
        loading = False, minting = False, isConfirming = False,
      mintAmount = Num 1, txHash = None,
        isConnected = True, walletAddress = Some ''0xme'', chainId = 1, basePrice = None\<rparr>"
      "\<lparr>switchChain = Some True, bigIntErrorText = ''not an integer''\<rparr>"]
  by (simp add: present_def)

text \<open>
  Claim C3. When a mint request goes through to the contract write, with a positive
  integer mint amount \<open>n\<close> and the on-chain unit price \<open>P\<close>, the value submitted is the
  integer product \<open>P * n\<close>; for the amount 3 it is \<open>3 * P\<close>.
\<close>

theorem mint_total_value:
  assumes "isConnected st" and "present (walletAddress st)"
    and "present (case project st of None \<Rightarrow> None | Some p \<Rightarrow> contractAddress p)"
    and "chainId st = polygon_id \<or> switchChain w \<noteq> Some False"
    and "basePrice st = Some P"
  shows "(0 < n \<and> mintAmount st = Num (of_int n) \<longrightarrow>
            submittedValues (snd (handleMint w st)) = [P * n]) \<and>
         (mintAmount st = Num 3 \<longrightarrow>
            submittedValues (snd (handleMint w st)) = [3 * P])"
proof (intro conjI impI)
  assume "0 < n \<and> mintAmount st = Num (of_int n)"
  then have "BigInt (bigIntErrorText w) (mintAmount st) = Inr n" by simp
  from handleMint_submits(1)[OF assms(1-4) this] assms(5)
  show "submittedValues (snd (handleMint w st)) = [P * n]" by simp
next
  assume "mintAmount st = Num 3"
  then have "BigInt (bigIntErrorText w) (mintAmount st) = Inr 3"
    using BigInt_of_int[of "bigIntErrorText w" 3] by simp
  from handleMint_submits(1)[OF assms(1-4) this] assms(5)
  show "submittedValues (snd (handleMint w st)) = [3 * P]" by (simp add: mult.commute)
qed

theorem mint_total_value_witness:
  "handleMint \<lparr>switchChain = Some True, bigIntErrorText = ''not an integer''\<rparr>
     \<lparr>message = None,
      project = Some \<lparr>status = approved, contractAddress = Some ''0xabc'',
                      mintingEnabled = True, mintPrice = Num 5\<rparr>,
      loading = False, minting = False, isConfirming = False,
      mintAmount = Num 3, txHash = None,
      isConnected = True, walletAddress = Some ''0xme'', chainId = 1, basePrice = Some 7\<rparr>
   = (\<lparr>message = Some \<lparr>text = ''Initiating mint transaction...'', type = info\<rparr>,
       project = Some \<lparr>status = approved, contractAddress = Some ''0xabc'',
                       mintingEnabled = True, mintPrice = Num 5\<rparr>,
       loading = False, minting = True, isConfirming = False,
       mintAmount = Num 3, txHash = None,
       isConnected = True, walletAddress = Some ''0xme'', chainId = 1, basePrice = Some 7\<rparr>,
      [SwitchChain 137, WriteContract ''0xabc'' ''mint'' (3, ''Collector'', ''0xme'') 21]) \<and>
   submittedValues
     (snd (handleMint \<lparr>switchChain = Some True, bigIntErrorText = ''not an integer''\<rparr>
       \<lparr>message = None,
        project = Some \<lparr>status = approved, contractAddress = Some ''0xabc'',
                        mintingEnabled = True, mintPrice = Num 5\<rparr>,
        loading = False, minting = False, isConfirming = False,
      mintAmount = Num 3, txHash = None,
        isConnected = True, walletAddress = Some ''0xme'', chainId = 1, basePrice = Some 7\<rparr>))
   = [3 * 7]"
proof -
  let ?w = "\<lparr>switchChain = Some True, bigIntErrorText = ''not an integer''\<rparr>"
  let ?st = "\<lparr>message = None,
      project = Some \<lparr>status = approved, contractAddress = Some ''0xabc'',
                      mintingEnabled = True, mintPrice = Num 5\<rparr>,
      loading = False, minting = False, isConfirming = False,
      mintAmount = Num 3, txHash = None,
      isConnected = True, walletAddress = Some ''0xme'', chainId = 1, basePrice = Some 7\<rparr>"
  have b: "BigInt ''not an integer'' (Num 3) = Inr 3"
    using BigInt_of_int[of "''not an integer''" 3] by simp
  have v: "handleMint ?w ?st
   = (\<lparr>message = Some \<lparr>text = ''Initiating mint transaction...'', type = info\<rparr>,
       project = Some \<lparr>status = approved, contractAddress = Some ''0xabc'',
                       mintingEnabled = True, mintPrice = Num 5\<rparr>,
       loading = False, minting = True, isConfirming = False,
       mintAmount = Num 3, txHash = None,
       isConnected = True, walletAddress = Some ''0xme'', chainId = 1, basePrice = Some 7\<rparr>,
      [SwitchChain 137, WriteContract ''0xabc'' ''mint'' (3, ''Collector'', ''0xme'') 21])"
    by (simp add: handleMint_def present_def polygon_id_def b)
  have "submittedValues (snd (handleMint ?w ?st)) = [3 * 7]"
    using mint_total_value[of ?st ?w 7 3] by (simp add: present_def)
  with v show ?thesis by simp
qed

lemma mintingSections_append [simp]:
  "mintingSections (xs @ ys) = mintingSections xs @ mintingSections ys"
  by (induction xs rule: mintingSections.induct) simp_all

text \<open>
  Claim C9. A project is mintable, \<open>canMint\<close>, exactly when its status is approved, its
  contract address is present (truthy, as the code tests it everywhere: there and not the
  empty string) and minting is enabled, and the page of a loaded project shows the minting
  section, with the mint controls, exactly then. For an approved project
  with a contract address and minting not enabled, no minting section is rendered; the
  page shows the box saying that minting is not yet enabled and the gallery card shows the
  badge Coming Soon.
\<close>

theorem mintable_rendering:
  "canMint p = (status p = approved \<and> present (contractAddress p) \<and> mintingEnabled p) \<and>
   (\<not> loading st \<and> project st = Some p \<longrightarrow>
      (case renderProjectView st of
         ProjectPage secs \<Rightarrow>
           (mintingSections secs \<noteq> []) =
             (status p = approved \<and> present (contractAddress p) \<and> mintingEnabled p) \<and>
           (status p = approved \<and> present (contractAddress p) \<and> \<not> mintingEnabled p \<longrightarrow>
              mintingSections secs = [] \<and> NotLiveBox \<in> set secs)
       | _ \<Rightarrow> False)) \<and>
   (status p = approved \<and> present (contractAddress p) \<and> \<not> mintingEnabled p \<longrightarrow>
      cardBadges p = [ComingSoon])"
  by (simp add: canMint_def renderProjectView_def cardBadges_def)

theorem mintable_rendering_witness:
  "renderProjectView
     \<lparr>message = None,
      project = Some \<lparr>status = approved, contractAddress = Some ''0xabc'',
                      mintingEnabled = False, mintPrice = Num 5\<rparr>,
      loading = False, minting = False, isConfirming = False,
      mintAmount = Num 1, txHash = None,
      isConnected = True, walletAddress = Some ''0xme'', chainId = 137, basePrice = None\<rparr>
   = ProjectPage [NotLiveBox] \<and>
   cardBadges \<lparr>status = approved, contractAddress = Some ''0xabc'',
                 mintingEnabled = False, mintPrice = Num 5\<rparr> = [ComingSoon] \<and>
   \<not> canMint \<lparr>status = approved, contractAddress = Some ''0xabc'',
                mintingEnabled = False, mintPrice = Num 5\<rparr>"
proof -
  let ?p = "\<lparr>status = approved, contractAddress = Some ''0xabc'',
             mintingEnabled = False, mintPrice = Num 5\<rparr>"
  let ?st = "\<lparr>message = None, project = Some ?p,
      loading = False, minting = False, isConfirming = False,
      mintAmount = Num 1, txHash = None,
      isConnected = True, walletAddress = Some ''0xme'', chainId = 137, basePrice = None\<rparr>"
  have r: "renderProjectView ?st = ProjectPage [NotLiveBox]"
    by (simp add: renderProjectView_def canMint_def present_def)
  show ?thesis
    using mintable_rendering[of ?p ?st] r by (simp add: present_def)
qed

section \<open>Field validators\<close>

text \<open>
  Claim C5. \<open>validateMobile\<close> counts the digits of its input, all other characters being
  stripped, and returns the empty string exactly when there are 10 to 15 of them; every
  other input gets one of three messages. \<open>validateMobile("123")\<close> is
  \<open>"Please enter a valid mobile number"\<close> and \<open>validateMobile("12345678901")\<close> is empty.
\<close>

theorem validateMobile_digits:
  "(validateMobile m = []) =
     (10 \<le> length (removeOutside isDigit m) \<and> length (removeOutside isDigit m) \<le> 15) \<and>
   removeOutside isDigit m = filter (\<lambda>c. c \<in> set ''0123456789'') m \<and>
   validateMobile m \<in> set [[], ''Mobile number is required'',
                             ''Please enter a valid mobile number'',
                             ''Phone number cannot exceed 15 digits''] \<and>
   validateMobile ''123'' = ''Please enter a valid mobile number'' \<and>
   validateMobile ''12345678901'' = []"
proof (intro conjI)
  show "(validateMobile m = []) =
     (10 \<le> length (removeOutside isDigit m) \<and> length (removeOutside isDigit m) \<le> 15)"
    by (cases m) (auto simp: validateMobile_def Let_def removeOutside_def)
next
  have d: "isDigit c = (c \<in> set ''0123456789'')" for c
  proof -
    have r: "(48 \<le> n \<and> n \<le> 57) = (n \<in> {48, 49, 50, 51, 52, 53, 54, 55, 56, 57})" for n :: nat
      by (simp only: insert_iff empty_iff) arith
    have e: "(c = d) = ((of_char c :: nat) = of_char d)" for d
      by simp
    show ?thesis
      unfolding isDigit_def code_def r
      by (simp add: e[of "CHR ''0''"] e[of "CHR ''1''"] e[of "CHR ''2''"] e[of "CHR ''3''"]
            e[of "CHR ''4''"] e[of "CHR ''5''"] e[of "CHR ''6''"] e[of "CHR ''7''"]
            e[of "CHR ''8''"] e[of "CHR ''9''"])
  qed
  show "removeOutside isDigit m = filter (\<lambda>c. c \<in> set ''0123456789'') m"
    unfolding removeOutside_def by (rule filter_cong) (simp_all only: d)
next
  show "validateMobile m \<in> set [[], ''Mobile number is required'',
                             ''Please enter a valid mobile number'',
                             ''Phone number cannot exceed 15 digits'']"
    by (simp add: validateMobile_def Let_def)
next
  show "validateMobile ''123'' = ''Please enter a valid mobile number''" by code_simp
next
  show "validateMobile ''12345678901'' = []" by code_simp
qed

theorem validateMobile_digits_witness:
  "validateMobile ''+1 (234) 567-8901'' = [] \<and>
   length (removeOutside isDigit ''+1 (234) 567-8901'') = 11 \<and>
   validateMobile ''1234567890123456'' = ''Phone number cannot exceed 15 digits''"
proof -
  have n: "length (removeOutside isDigit ''+1 (234) 567-8901'') = 11" by code_simp
  have l: "validateMobile ''1234567890123456'' = ''Phone number cannot exceed 15 digits''"
    by code_simp
  show ?thesis using validateMobile_digits[of "''+1 (234) 567-8901''"] n l by simp
qed

section \<open>Availability checks\<close>

text \<open>
  Claim C7. A project name whose trimmed length is below 2 gets the verdict unknown
  (\<open>null\<close>) and nothing is sent. Whenever a check does send its request and the fetch or the
  parsing of the response fails, the verdict is unknown, so never available; this holds for
  the name check and for the symbol check.
\<close>

theorem availability_unknown:
  "(length (trim n) < 2 \<longrightarrow>
      checkProjectNameAvailability r st n = (st\<lparr>projectNameAvailable := None\<rparr>, [])) \<and>
   ((r = FetchFails \<or> r = JsonFails) \<and> snd (checkProjectNameAvailability r st n) \<noteq> [] \<longrightarrow>
      projectNameAvailable (fst (checkProjectNameAvailability r st n)) = None) \<and>
   ((r = FetchFails \<or> r = JsonFails) \<and> snd (checkProjectSymbolAvailability r st n) \<noteq> [] \<longrightarrow>
      projectSymbolAvailable (fst (checkProjectSymbolAvailability r st n)) = None) \<and>
   ((r = FetchFails \<or> r = JsonFails) \<and> 2 \<le> length (trim n) \<and>
    present (map_option artist_id (artistData st)) \<longrightarrow>
      checkProjectNameAvailability r st n =
        (st\<lparr>projectNameAvailable := None, checkingProjectName := False\<rparr>,
         [CheckProjectName (trim n) (artist_id (the (artistData st)))]))"
proof (intro conjI impI)
  assume "length (trim n) < 2"
  then show "checkProjectNameAvailability r st n = (st\<lparr>projectNameAvailable := None\<rparr>, [])"
    by (simp add: checkProjectNameAvailability_def)
next
  assume "(r = FetchFails \<or> r = JsonFails) \<and> snd (checkProjectNameAvailability r st n) \<noteq> []"
  then show "projectNameAvailable (fst (checkProjectNameAvailability r st n)) = None"
    by (auto simp: checkProjectNameAvailability_def Let_def split: if_splits)
next
  assume "(r = FetchFails \<or> r = JsonFails) \<and> snd (checkProjectSymbolAvailability r st n) \<noteq> []"
  then show "projectSymbolAvailable (fst (checkProjectSymbolAvailability r st n)) = None"
    by (auto simp: checkProjectSymbolAvailability_def Let_def split: if_splits)
next
  assume "(r = FetchFails \<or> r = JsonFails) \<and> 2 \<le> length (trim n) \<and>
    present (map_option artist_id (artistData st))"
  then show "checkProjectNameAvailability r st n =
        (st\<lparr>projectNameAvailable := None, checkingProjectName := False\<rparr>,
         [CheckProjectName (trim n) (artist_id (the (artistData st)))])"
    by (auto simp: checkProjectNameAvailability_def Let_def)
qed

theorem availability_unknown_witness:
  "length (trim '' a  '') < 2 \<and>
   checkProjectNameAvailability FetchFails
     \<lparr>message = None, artistData = Some \<lparr>artist_id = ''7'', artist_name = ''Jane''\<rparr>,
      formData = emptyForm, projectNameAvailable = Some True, projectSymbolAvailable = None,
      checkingProjectName = False, checkingProjectSymbol = False, submitting = False\<rparr>
     '' a  ''
   = (\<lparr>message = None, artistData = Some \<lparr>artist_id = ''7'', artist_name = ''Jane''\<rparr>,
       formData = emptyForm, projectNameAvailable = None, projectSymbolAvailable = None,
       checkingProjectName = False, checkingProjectSymbol = False, submitting = False\<rparr>, []) \<and>
   checkProjectNameAvailability JsonFails
     \<lparr>message = None, artistData = Some \<lparr>artist_id = ''7'', artist_name = ''Jane''\<rparr>,
      formData = emptyForm, projectNameAvailable = Some True, projectSymbolAvailable = None,
      checkingProjectName = False, checkingProjectSymbol = False, submitting = False\<rparr>
     ''My Art''
   = (\<lparr>message = None, artistData = Some \<lparr>artist_id = ''7'', artist_name = ''Jane''\<rparr>,
       formData = emptyForm, projectNameAvailable = None, projectSymbolAvailable = None,
       checkingProjectName = False, checkingProjectSymbol = False, submitting = False\<rparr>,
      [CheckProjectName ''My Art'' ''7''])"
proof -
  let ?st = "\<lparr>message = None, artistData = Some \<lparr>artist_id = ''7'', artist_name = ''Jane''\<rparr>,
      formData = emptyForm, projectNameAvailable = Some True, projectSymbolAvailable = None,
      checkingProjectName = False, checkingProjectSymbol = False, submitting = False\<rparr>"
  have t1: "trim '' a  '' = ''a''" by code_simp
  have t2: "trim ''My Art'' = ''My Art''" by code_simp
  have p: "present (map_option artist_id (artistData ?st))" by (simp add: present_def)
  show ?thesis
    using availability_unknown[of "'' a  ''" FetchFails ?st]
      availability_unknown[of "''My Art''" JsonFails ?st] t1 t2 p
    by simp
qed

section \<open>Project form validation\<close>

lemma check_name_message [simp]:
  "message (fst (checkProjectNameAvailability r st n)) = message st"
  by (simp add: checkProjectNameAvailability_def Let_def split: reply.splits)

lemma check_symbol_message [simp]:
  "message (fst (checkProjectSymbolAvailability r st n)) = message st"
  by (simp add: checkProjectSymbolAvailability_def Let_def split: reply.splits)

lemma submissions_append [simp]: "submissions (xs @ ys) = submissions xs @ submissions ys"
  by (induction xs rule: submissions.induct) simp_all

lemma check_name_submissions [simp]:
  "submissions (snd (checkProjectNameAvailability r st n)) = []"
  by (simp add: checkProjectNameAvailability_def Let_def)

lemma check_symbol_submissions [simp]:
  "submissions (snd (checkProjectSymbolAvailability r st n)) = []"
  by (simp add: checkProjectSymbolAvailability_def Let_def)

text \<open>The first failing rule, written out along the priority order.\<close>

lemma firstFailing_chain:
  "firstFailing env st =
     (if fails env st NameRule then Some NameRule
      else if fails env st SymbolRule then Some SymbolRule
      else if fails env st SymbolLengthRule then Some SymbolLengthRule
      else if fails env st NameAvailabilityRule then Some NameAvailabilityRule
      else if fails env st SymbolAvailabilityRule then Some SymbolAvailabilityRule
      else if fails env st TotalSupplyRule then Some TotalSupplyRule
      else if fails env st MintPriceRule then Some MintPriceRule
      else if fails env st RoyaltiesRule then Some RoyaltiesRule
      else if fails env st RoyaltiesRangeRule then Some RoyaltiesRangeRule
      else if fails env st ContractOwnerPresenceRule then Some ContractOwnerPresenceRule
      else if fails env st ContractOwnerFormatRule then Some ContractOwnerFormatRule
      else if fails env st ImagePresenceRule then Some ImagePresenceRule
      else None)"
  unfolding firstFailing_def priorityOrder_def by (simp only: find.simps)

text \<open>Exactly one rule is the first to fail, or none fails.\<close>

lemma rule_cases:
  obtains
      (c1) "fails env st NameRule"
    | (c2) "\<not> fails env st NameRule" "fails env st SymbolRule"
    | (c3) "\<not> fails env st NameRule" "\<not> fails env st SymbolRule"
        "fails env st SymbolLengthRule"
    | (c4) "\<not> fails env st NameRule" "\<not> fails env st SymbolRule"
        "\<not> fails env st SymbolLengthRule" "fails env st NameAvailabilityRule"
    | (c5) "\<not> fails env st NameRule" "\<not> fails env st SymbolRule"
        "\<not> fails env st SymbolLengthRule" "\<not> fails env st NameAvailabilityRule"
        "fails env st SymbolAvailabilityRule"
    | (c6) "\<not> fails env st NameRule" "\<not> fails env st SymbolRule"
        "\<not> fails env st SymbolLengthRule" "\<not> fails env st NameAvailabilityRule"
        "\<not> fails env st SymbolAvailabilityRule" "fails env st TotalSupplyRule"
    | (c7) "\<not> fails env st NameRule" "\<not> fails env st SymbolRule"
        "\<not> fails env st SymbolLengthRule" "\<not> fails env st NameAvailabilityRule"
        "\<not> fails env st SymbolAvailabilityRule" "\<not> fails env st TotalSupplyRule"
        "fails env st MintPriceRule"
    | (c8) "\<not> fails env st NameRule" "\<not> fails env st SymbolRule"
        "\<not> fails env st SymbolLengthRule" "\<not> fails env st NameAvailabilityRule"
        "\<not> fails env st SymbolAvailabilityRule" "\<not> fails env st TotalSupplyRule"
        "\<not> fails env st MintPriceRule" "fails env st RoyaltiesRule"
    | (c9) "\<not> fails env st NameRule" "\<not> fails env st SymbolRule"
        "\<not> fails env st SymbolLengthRule" "\<not> fails env st NameAvailabilityRule"
        "\<not> fails env st SymbolAvailabilityRule" "\<not> fails env st TotalSupplyRule"
        "\<not> fails env st MintPriceRule" "\<not> fails env st RoyaltiesRule"
        "fails env st RoyaltiesRangeRule"
    | (c10) "\<not> fails env st NameRule" "\<not> fails env st SymbolRule"
        "\<not> fails env st SymbolLengthRule" "\<not> fails env st NameAvailabilityRule"
        "\<not> fails env st SymbolAvailabilityRule" "\<not> fails env st TotalSupplyRule"
        "\<not> fails env st MintPriceRule" "\<not> fails env st RoyaltiesRule"
        "\<not> fails env st RoyaltiesRangeRule" "fails env st ContractOwnerPresenceRule"
    | (c11) "\<not> fails env st NameRule" "\<not> fails env st SymbolRule"
        "\<not> fails env st SymbolLengthRule" "\<not> fails env st NameAvailabilityRule"
        "\<not> fails env st SymbolAvailabilityRule" "\<not> fails env st TotalSupplyRule"
        "\<not> fails env st MintPriceRule" "\<not> fails env st RoyaltiesRule"
        "\<not> fails env st RoyaltiesRangeRule"
        "\<not> fails env st ContractOwnerPresenceRule" "fails env st ContractOwnerFormatRule"
    | (c12) "\<not> fails env st NameRule" "\<not> fails env st SymbolRule"
        "\<not> fails env st SymbolLengthRule" "\<not> fails env st NameAvailabilityRule"
        "\<not> fails env st SymbolAvailabilityRule" "\<not> fails env st TotalSupplyRule"
        "\<not> fails env st MintPriceRule" "\<not> fails env st RoyaltiesRule"
        "\<not> fails env st RoyaltiesRangeRule"
        "\<not> fails env st ContractOwnerPresenceRule"
        "\<not> fails env st ContractOwnerFormatRule" "fails env st ImagePresenceRule"
    | (c13) "\<not> fails env st NameRule" "\<not> fails env st SymbolRule"
        "\<not> fails env st SymbolLengthRule" "\<not> fails env st NameAvailabilityRule"
        "\<not> fails env st SymbolAvailabilityRule" "\<not> fails env st TotalSupplyRule"
        "\<not> fails env st MintPriceRule" "\<not> fails env st RoyaltiesRule"
        "\<not> fails env st RoyaltiesRangeRule"
        "\<not> fails env st ContractOwnerPresenceRule"
        "\<not> fails env st ContractOwnerFormatRule" "\<not> fails env st ImagePresenceRule"
  by blast

lemma numLess_spec: "x \<noteq> NaN \<Longrightarrow> numLess x k = (\<not> numAtLeast x k)"
  by (cases x) (auto simp: numLess_def numAtLeast_def)

lemma numGreater_spec: "x \<noteq> NaN \<Longrightarrow> numGreater x k = (\<not> numAtMost x k)"
  by (cases x) (auto simp: numGreater_def numAtMost_def)

text \<open>
  Where the code and the rules agree: when the verdicts held by the render are those of
  the checks made for this submission, and the three numeric fields parse to numbers,
  \<open>validateForm\<close> returns true exactly when no rule fails and leaves the message of the
  first failing rule.
\<close>

lemma validateForm_when_fresh:
  assumes "(projectNameAvailable st = Some False) = (nameVerdict env st = Some False)"
    and "(projectSymbolAvailable st = Some False) = (symbolVerdict env st = Some False)"
    and "parseInt env (totalSupply (formData st)) \<noteq> NaN"
    and "parseFloat env (mintPrice (formData st)) \<noteq> NaN"
    and "parseFloat env (royalties (formData st)) \<noteq> NaN"
  shows "fst (validateForm env st) = (firstFailing env st = None)"
    and "message (fst (snd (validateForm env st))) =
           (case firstFailing env st of
              Some r \<Rightarrow> failed (ruleMessage r)
            | None \<Rightarrow> notice ''Checking project symbol availability...'')"
  using assms
  by (cases env st rule: rule_cases;
      simp add: validateForm_def firstFailing_chain Let_def split_beta numLess_spec
        numGreater_spec del: not_None_eq)+

lemma validateForm_submissions:
  "submissions (snd (snd (validateForm env st))) = []"
  by (simp add: validateForm_def Let_def split_beta)

lemma ethAddress_example:
  "ethAddressRegex ''0xaaaaaaaaaaaaaaaaaaaaaaaaaaaaaaaaaaaaaaaa''"
  by code_simp

text \<open>
  Claim C6. The claim asks that validation report the first failing rule of the priority
  order and that nothing be submitted unless all rules pass. The code does not do that for
  the availability rules: \<open>validateForm\<close> makes the check and then tests the verdict held by
  the render, not the one the check has just set. On a first submission that verdict is
  still unknown, so for a name that the backend reports as taken the name-availability
  rule fails, yet \<open>validateForm\<close> returns true and \<open>handleSubmit\<close> sends the project.
\<close>

theorem validateForm_taken_name_submitted:
  "nameVerdict
     \<lparr>nameReply = Json (Some False), symbolReply = Json (Some True),
      createReply = Json (True, None), imageReads = True,
      parseInt = (\<lambda>s. if s = ''100'' then Num 100 else NaN),
      parseFloat = (\<lambda>s. if s = ''0.5'' then Num (1 / 2) else if s = ''5'' then Num 5 else NaN)\<rparr>
     \<lparr>message = None, artistData = Some \<lparr>artist_id = ''7'', artist_name = ''Jane''\<rparr>,
      formData = \<lparr>projectName = ''My Art'', projectSymbol = ''ART'',
                  image = Some \<lparr>fileSize = 1000, fileType = ''image/png''\<rparr>,
                  totalSupply = ''100'', mintPrice = ''0.5'',
                  contractOwner = ''0xaaaaaaaaaaaaaaaaaaaaaaaaaaaaaaaaaaaaaaaa'',
                  royalties = ''5''\<rparr>,
      projectNameAvailable = None, projectSymbolAvailable = None,
      checkingProjectName = False, checkingProjectSymbol = False, submitting = False\<rparr>
   = Some False \<and>
   firstFailing
     \<lparr>nameReply = Json (Some False), symbolReply = Json (Some True),
      createReply = Json (True, None), imageReads = True,
      parseInt = (\<lambda>s. if s = ''100'' then Num 100 else NaN),
      parseFloat = (\<lambda>s. if s = ''0.5'' then Num (1 / 2) else if s = ''5'' then Num 5 else NaN)\<rparr>
     \<lparr>message = None, artistData = Some \<lparr>artist_id = ''7'', artist_name = ''Jane''\<rparr>,
      formData = \<lparr>projectName = ''My Art'', projectSymbol = ''ART'',
                  image = Some \<lparr>fileSize = 1000, fileType = ''image/png''\<rparr>,
                  totalSupply = ''100'', mintPrice = ''0.5'',
                  contractOwner = ''0xaaaaaaaaaaaaaaaaaaaaaaaaaaaaaaaaaaaaaaaa'',
                  royalties = ''5''\<rparr>,
      projectNameAvailable = None, projectSymbolAvailable = None,
      checkingProjectName = False, checkingProjectSymbol = False, submitting = False\<rparr>
   = Some NameAvailabilityRule \<and>
   fst (validateForm
     \<lparr>nameReply = Json (Some False), symbolReply = Json (Some True),
      createReply = Json (True, None), imageReads = True,
      parseInt = (\<lambda>s. if s = ''100'' then Num 100 else NaN),
      parseFloat = (\<lambda>s. if s = ''0.5'' then Num (1 / 2) else if s = ''5'' then Num 5 else NaN)\<rparr>
     \<lparr>message = None, artistData = Some \<lparr>artist_id = ''7'', artist_name = ''Jane''\<rparr>,
      formData = \<lparr>projectName = ''My Art'', projectSymbol = ''ART'',
                  image = Some \<lparr>fileSize = 1000, fileType = ''image/png''\<rparr>,
                  totalSupply = ''100'', mintPrice = ''0.5'',
                  contractOwner = ''0xaaaaaaaaaaaaaaaaaaaaaaaaaaaaaaaaaaaaaaaa'',
                  royalties = ''5''\<rparr>,
      projectNameAvailable = None, projectSymbolAvailable = None,
      checkingProjectName = False, checkingProjectSymbol = False, submitting = False\<rparr>) \<and>
   snd (handleSubmit
     \<lparr>nameReply = Json (Some False), symbolReply = Json (Some True),
      createReply = Json (True, None), imageReads = True,
      parseInt = (\<lambda>s. if s = ''100'' then Num 100 else NaN),
      parseFloat = (\<lambda>s. if s = ''0.5'' then Num (1 / 2) else if s = ''5'' then Num 5 else NaN)\<rparr>
     \<lparr>message = None, artistData = Some \<lparr>artist_id = ''7'', artist_name = ''Jane''\<rparr>,
      formData = \<lparr>projectName = ''My Art'', projectSymbol = ''ART'',
                  image = Some \<lparr>fileSize = 1000, fileType = ''image/png''\<rparr>,
                  totalSupply = ''100'', mintPrice = ''0.5'',
                  contractOwner = ''0xaaaaaaaaaaaaaaaaaaaaaaaaaaaaaaaaaaaaaaaa'',
                  royalties = ''5''\<rparr>,
      projectNameAvailable = None, projectSymbolAvailable = None,
      checkingProjectName = False, checkingProjectSymbol = False, submitting = False\<rparr>)
   = [CheckProjectName ''My Art'' ''7'', CheckProjectSymbol ''ART'' ''7'',
      CreateProject ''7'' ''My Art'', GetProjects ''7'']"
proof -
  let ?env = "\<lparr>nameReply = Json (Some False), symbolReply = Json (Some True),
      createReply = Json (True, None), imageReads = True,
      parseInt = (\<lambda>s. if s = ''100'' then Num 100 else NaN),
      parseFloat = (\<lambda>s. if s = ''0.5'' then Num (1 / 2) else if s = ''5'' then Num 5 else NaN)\<rparr>"
  let ?st = "\<lparr>message = None, artistData = Some \<lparr>artist_id = ''7'', artist_name = ''Jane''\<rparr>,
      formData = \<lparr>projectName = ''My Art'', projectSymbol = ''ART'',
                  image = Some \<lparr>fileSize = 1000, fileType = ''image/png''\<rparr>,
                  totalSupply = ''100'', mintPrice = ''0.5'',
                  contractOwner = ''0xaaaaaaaaaaaaaaaaaaaaaaaaaaaaaaaaaaaaaaaa'',
                  royalties = ''5''\<rparr>,
      projectNameAvailable = None, projectSymbolAvailable = None,
      checkingProjectName = False, checkingProjectSymbol = False, submitting = False\<rparr>"
  have t1: "trim ''My Art'' = ''My Art''" by code_simp
  have t2: "trim ''ART'' = ''ART''" by code_simp
  have t3: "trim ''0xaaaaaaaaaaaaaaaaaaaaaaaaaaaaaaaaaaaaaaaa''
              = ''0xaaaaaaaaaaaaaaaaaaaaaaaaaaaaaaaaaaaaaaaa''" by code_simp
  note ev = t1 t2 t3 ethAddress_example numLess_def numGreater_def numAtLeast_def
    numAtMost_def present_def notice_def failed_def checkProjectNameAvailability_def
    checkProjectSymbolAvailability_def Let_def
  have nv: "nameVerdict ?env ?st = Some False"
    by (simp add: nameVerdict_def ev)
  have ff: "firstFailing ?env ?st = Some NameAvailabilityRule"
    by (simp add: firstFailing_chain nv t1 t2)
  have v: "validateForm ?env ?st =
     (True,
      ?st\<lparr>message := notice ''Checking project symbol availability...'',
           projectNameAvailable := Some False, projectSymbolAvailable := Some True\<rparr>,
      [CheckProjectName ''My Art'' ''7'', CheckProjectSymbol ''ART'' ''7''])"
    by (simp add: validateForm_def ev)
  have h: "snd (handleSubmit ?env ?st) =
     [CheckProjectName ''My Art'' ''7'', CheckProjectSymbol ''ART'' ''7'',
      CreateProject ''7'' ''My Art'', GetProjects ''7'']"
    by (simp add: handleSubmit_def v present_def t1 Let_def)
  show ?thesis using nv ff v h by simp
qed

theorem validateForm_taken_name_submitted_witness:
  "submissions (snd (handleSubmit
     \<lparr>nameReply = Json (Some False), symbolReply = Json (Some True),
      createReply = Json (True, None), imageReads = True,
      parseInt = (\<lambda>s. if s = ''100'' then Num 100 else NaN),
      parseFloat = (\<lambda>s. if s = ''0.5'' then Num (1 / 2) else if s = ''5'' then Num 5 else NaN)\<rparr>
     \<lparr>message = None, artistData = Some \<lparr>artist_id = ''7'', artist_name = ''Jane''\<rparr>,
      formData = \<lparr>projectName = ''My Art'', projectSymbol = ''ART'',
                  image = Some \<lparr>fileSize = 1000, fileType = ''image/png''\<rparr>,
                  totalSupply = ''100'', mintPrice = ''0.5'',
                  contractOwner = ''0xaaaaaaaaaaaaaaaaaaaaaaaaaaaaaaaaaaaaaaaa'',
                  royalties = ''5''\<rparr>,
      projectNameAvailable = None, projectSymbolAvailable = None,
      checkingProjectName = False, checkingProjectSymbol = False, submitting = False\<rparr>))
   = [CreateProject ''7'' ''My Art'']"
  by (simp add: validateForm_taken_name_submitted)

end
